theory Spec2Isabelle
  imports Complex_Main "HOL-Library.Word"
begin

section \<open>The session and ingestion orchestrator of the RAG client (App.js)\<close>

text \<open>
  The React component \<open>App\<close> keeps its data in \<open>useState\<close> cells and changes them
  from four handlers: \<open>loadCollectionInfo\<close>, \<open>handleFileUpload\<close>,
  \<open>handleSendMessage\<close> and \<open>removeFile\<close>. Three of them are \<open>async\<close>: they run
  up to their \<open>fetch\<close>, are suspended, and run their remainder when the request settles.
  The embedding follows that shape. The state cells are one record, every handler is a
  function from state to state, and an asynchronous handler is two functions: the part
  before the \<open>await\<close> and the part after it, which takes the outcome of the request.
  The two \<open>await\<close>s of a handler (\<open>fetch\<close>, then \<open>response.json()\<close>) are one
  outcome, since nothing is written between them.

  What the code reads from outside is a parameter: the value of \<open>Date.now()\<close>, the
  strings drawn with \<open>Math.random()\<close>, and what the backend answers. The cell
  \<open>easterEggActive\<close> and the keys recorded for it drive an overlay only and are left
  out.
\<close>

subsection \<open>JavaScript strings\<close>

text \<open>
  A JavaScript string is a sequence of UTF-16 code units. The text of the input box and
  the strings inside a parsed body are such sequences. \<open>utf16\<close> writes a literal of
  ASCII characters as one: a code unit for each character.
\<close>

type_synonym js_string = "16 word list"

definition utf16 :: "string \<Rightarrow> js_string" where
  "utf16 s = map (\<lambda>c. of_nat (of_char c)) s"

subsection \<open>JavaScript values that come out of \<open>response.json()\<close>\<close>

text \<open>
  A parsed body is a JSON value. Numbers are carried around and never computed with; the
  only test made on them is truthiness. \<open>undefined\<close> is not a JSON value: a property read
  that finds nothing gives \<open>None\<close>.
\<close>

datatype json =
    JNull
  | JBool bool
  | JNum rat
  | JStr js_string
  | JArr "json list"
  | JObj "(string \<times> json) list"

datatype exn = NetworkError | SyntaxError | TypeError

text \<open>
  \<open>v.k\<close> for a parsed value \<open>v\<close>. Reading a property of \<open>null\<close> throws a TypeError.
  In an object parsed from JSON text the last of several equal keys wins. The property
  names this program reads are \<open>answer\<close>, \<open>sources\<close>, \<open>collection\<close>,
  \<open>document_count\<close> and \<open>length\<close>; of these, strings and arrays have \<open>length\<close> only.
\<close>

fun get_prop :: "json \<Rightarrow> string \<Rightarrow> exn + json option" where
  "get_prop JNull k = Inl TypeError"
| "get_prop (JObj kvs) k = Inr (map_of (rev kvs) k)"
| "get_prop (JArr xs) k =
     Inr (if k = ''length'' then Some (JNum (of_nat (length xs))) else None)"
| "get_prop (JStr s) k =
     Inr (if k = ''length'' then Some (JNum (of_nat (length s))) else None)"
| "get_prop (JBool b) k = Inr None"
| "get_prop (JNum n) k = Inr None"

text \<open>\<open>v.k\<close> where \<open>v\<close> may be \<open>undefined\<close>, which throws as \<open>null\<close> does.\<close>

fun get_prop_opt :: "json option \<Rightarrow> string \<Rightarrow> exn + json option" where
  "get_prop_opt None k = Inl TypeError"
| "get_prop_opt (Some v) k = get_prop v k"

text \<open>Truthiness, as \<open>||\<close> tests it.\<close>

fun truthy :: "json option \<Rightarrow> bool" where
  "truthy None = False"
| "truthy (Some JNull) = False"
| "truthy (Some (JBool b)) = b"
| "truthy (Some (JNum n)) = (n \<noteq> 0)"
| "truthy (Some (JStr s)) = (s \<noteq> [])"
| "truthy (Some (JArr xs)) = True"
| "truthy (Some (JObj kvs)) = True"

subsection \<open>The backend, seen from \<open>fetch\<close>\<close>

text \<open>
  \<open>fetch\<close> rejects when no response arrives. Any response resolves it, whatever the
  status. \<open>response.json()\<close> rejects when the body is not JSON text (\<open>body = None\<close>).
\<close>

record response =
  status :: nat
  body :: "json option"

datatype fetch_result = Rejected | Resolved response

definition non_2xx :: "response \<Rightarrow> bool" where
  "non_2xx r = (\<not> (200 \<le> status r \<and> status r < 300))"

text \<open>\<open>await fetch(...)\<close> followed by \<open>await response.json()\<close>.\<close>

fun fetch_json :: "fetch_result \<Rightarrow> exn + json" where
  "fetch_json Rejected = Inl NetworkError"
| "fetch_json (Resolved r) = (case body r of None \<Rightarrow> Inl SyntaxError | Some d \<Rightarrow> Inr d)"

record file_info =
  file_name :: string
  file_size :: nat

datatype request =
    HealthGet
  | UploadPost "file_info list"
  | QueryPost js_string nat

subsection \<open>The state cells (App.js, lines 29 to 45)\<close>

datatype job_status = Pending | Processing | Completed | Error

record job =
  job_id :: string
  job_name :: string
  job_size :: nat
  job_type :: string
  job_status :: job_status

datatype role = User | Assistant

text \<open>A message without a \<open>sources\<close> property has \<open>sources = None\<close>.\<close>

record message =
  msg_id :: string
  role :: role
  content :: "json option"
  sources :: "json option"
  timestamp :: nat

record collection_info =
  document_count :: "json option"
  total_chunks :: "json option"

text \<open>
  \<open>activeTab\<close> is one of the strings \<open>'dashboard'\<close>, \<open>'chat'\<close> and
  \<open>'documents'\<close>: the three tab buttons are the only callers of \<open>setActiveTab\<close>.
\<close>

datatype tab = Dashboard | Chat | Documents

text \<open>The cell \<open>analytics\<close> (App.js, lines 49 to 70).\<close>

record document_type_row =
  doc_type :: string
  doc_count :: nat
  doc_percentage :: nat

record chunk_range_row =
  chunk_range :: string
  chunk_count :: nat

record activity_row =
  action :: string
  activity_file :: "string option"
  activity_query :: "string option"
  activity_time :: string

record analytics_data =
  totalChunks :: nat
  avgChunkSize :: nat
  totalTokens :: nat
  documentTypes :: "document_type_row list"
  chunkDistribution :: "chunk_range_row list"
  recentActivity :: "activity_row list"

text \<open>
  What a suspended handler still holds: \<open>handleFileUpload\<close> keeps its \<open>newFiles\<close>, the
  other two keep nothing that they use later.
\<close>

datatype continuation = KHealth | KUpload "job list" | KQuery

text \<open>What \<open>alert\<close> shows, and what \<open>console.error\<close> records.\<close>

datatype notice = UploadSucceeded "json option" | UploadFailed

datatype log_entry = LoadFailed exn | UploadError exn | QueryFailed exn

text \<open>
  The first eight fields are the \<open>useState\<close> cells. The other four are the world
  around them: the requests sent so far, the handlers suspended on a request, the alerts
  shown and the console.
\<close>

record state =
  activeTab :: tab
  analytics :: analytics_data
  uploadedFiles :: "job list"
  processingStatus :: "string \<rightharpoonup> job_status"
  messages :: "message list"
  inputMessage :: js_string
  isThinking :: bool
  collectionInfo :: collection_info
  requests :: "request list"
  inflight :: "continuation list"
  alerts :: "notice list"
  console :: "log_entry list"

definition fetch :: "request \<Rightarrow> continuation \<Rightarrow> state \<Rightarrow> state" where
  "fetch req k st = st\<lparr>requests := requests st @ [req], inflight := inflight st @ [k]\<rparr>"

definition alert :: "notice \<Rightarrow> state \<Rightarrow> state" where
  "alert n st = st\<lparr>alerts := alerts st @ [n]\<rparr>"

definition console_error :: "log_entry \<Rightarrow> state \<Rightarrow> state" where
  "console_error e st = st\<lparr>console := console st @ [e]\<rparr>"

subsection \<open>Strings: \<open>trim\<close>, \<open>toLowerCase\<close>, \<open>toString\<close>\<close>

text \<open>
  \<open>String.prototype.trim\<close> removes from both ends the code units that are WhiteSpace or
  LineTerminator in ECMAScript: tab, vertical tab, form feed, space, no-break space
  (U+00A0), the byte order mark (U+FEFF) and the other space separators of Unicode (U+1680,
  U+2000 to U+200A, U+202F, U+205F, U+3000), and line feed, carriage return, U+2028 and
  U+2029. All of them are single code units.
\<close>

definition is_space :: "16 word \<Rightarrow> bool" where
  "is_space c =
     (c \<in> {0x0009, 0x000A, 0x000B, 0x000C, 0x000D, 0x0020, 0x00A0, 0x1680, 0x2028, 0x2029,
            0x202F, 0x205F, 0x3000, 0xFEFF}
      \<or> (0x2000 \<le> c \<and> c \<le> 0x200A))"

definition trim :: "js_string \<Rightarrow> js_string" where
  "trim s = rev (dropWhile is_space (rev (dropWhile is_space s)))"

text \<open>
  File names, job ids and property names are kept as strings of characters; of these only
  the file name is transformed, and \<open>toLowerCase\<close> is given for the letters A to Z.
\<close>

definition toLowerCase_char :: "char \<Rightarrow> char" where
  "toLowerCase_char c =
     (let n = (of_char c :: nat) in if 65 \<le> n \<and> n \<le> 90 then char_of (n + 32) else c)"

definition toLowerCase :: "string \<Rightarrow> string" where
  "toLowerCase s = map toLowerCase_char s"

text \<open>\<open>name.split('.').pop()\<close>: what follows the last dot, or the whole name.\<close>

definition split_pop :: "string \<Rightarrow> string" where
  "split_pop s = rev (takeWhile (\<lambda>c. c \<noteq> CHR ''.'') (rev s))"

definition digit_char :: "nat \<Rightarrow> char" where
  "digit_char d = ''0123456789'' ! d"

fun toString :: "nat \<Rightarrow> string" where
  "toString n = (if n < 10 then [digit_char n] else toString (n div 10) @ [digit_char (n mod 10)])"

declare toString.simps [simp del]

subsection \<open>\<open>loadCollectionInfo\<close> (App.js, lines 90 to 101)\<close>

definition API_BASE :: string where
  "API_BASE = ''http://localhost:8000''"

definition loadCollectionInfo :: "state \<Rightarrow> state" where
  "loadCollectionInfo st = fetch HealthGet KHealth st"

text \<open>\<open>data.collection.document_count\<close>\<close>

definition read_document_count :: "json \<Rightarrow> exn + json option" where
  "read_document_count data =
     (case get_prop data ''collection'' of
        Inl e \<Rightarrow> Inl e
      | Inr c \<Rightarrow> get_prop_opt c ''document_count'')"

definition loadCollectionInfo_resume :: "fetch_result \<Rightarrow> state \<Rightarrow> state" where
  "loadCollectionInfo_resume res st =
     (case fetch_json res of
        Inl e \<Rightarrow> console_error (LoadFailed e) st
      | Inr data \<Rightarrow>
          (case read_document_count data of
             Inl e \<Rightarrow> console_error (LoadFailed e) st
           | Inr n \<Rightarrow> st\<lparr>collectionInfo := \<lparr>document_count = n, total_chunks = n\<rparr>\<rparr>))"

subsection \<open>\<open>handleFileUpload\<close> (App.js, lines 103 to 146)\<close>

text \<open>
  \<open>draw i\<close> is the string that \<open>Math.random().toString(36).substr(2, 9)\<close> gives for
  the file at position \<open>i\<close> of the selection.
\<close>

definition make_job :: "string \<Rightarrow> file_info \<Rightarrow> job" where
  "make_job i f =
     \<lparr>job_id = i, job_name = file_name f, job_size = file_size f,
      job_type = toLowerCase (split_pop (file_name f)), job_status = Pending\<rparr>"

definition make_newFiles :: "(nat \<Rightarrow> string) \<Rightarrow> file_info list \<Rightarrow> job list" where
  "make_newFiles draw files = map (\<lambda>(i, f). make_job (draw i) f) (enumerate 0 files)"

definition append_newFiles :: "job list \<Rightarrow> state \<Rightarrow> state" where
  "append_newFiles newFiles st = st\<lparr>uploadedFiles := uploadedFiles st @ newFiles\<rparr>"

text \<open>
  \<open>newFiles.forEach(file => setProcessingStatus(prev => ({...prev, [file.id]: s})))\<close>
\<close>

definition setProcessingStatus_each :: "job_status \<Rightarrow> job list \<Rightarrow> state \<Rightarrow> state" where
  "setProcessingStatus_each s newFiles st =
     st\<lparr>processingStatus := fold (\<lambda>f m. m(job_id f \<mapsto> s)) newFiles (processingStatus st)\<rparr>"

definition handleFileUpload :: "file_info list \<Rightarrow> (nat \<Rightarrow> string) \<Rightarrow> state \<Rightarrow> state" where
  "handleFileUpload files draw st =
     (if files = [] then st
      else
        let newFiles = make_newFiles draw files in
        fetch (UploadPost files) (KUpload newFiles)
          (setProcessingStatus_each Processing newFiles (append_newFiles newFiles st)))"

text \<open>The \<open>catch\<close> block of \<open>handleFileUpload\<close>.\<close>

definition handleFileUpload_catch :: "job list \<Rightarrow> exn \<Rightarrow> state \<Rightarrow> state" where
  "handleFileUpload_catch newFiles e st =
     setProcessingStatus_each Error newFiles (alert UploadFailed (console_error (UploadError e) st))"

text \<open>
  After the \<open>await\<close>s: mark the jobs completed, call \<open>loadCollectionInfo\<close> (which runs
  up to its own \<open>fetch\<close>), then build the alert text from \<open>results.length\<close>. That
  last read throws when \<open>results\<close> is \<open>null\<close>, and the \<open>catch\<close> block then runs on
  the state reached so far.
\<close>

definition handleFileUpload_resume :: "job list \<Rightarrow> fetch_result \<Rightarrow> state \<Rightarrow> state" where
  "handleFileUpload_resume newFiles res st =
     (case fetch_json res of
        Inl e \<Rightarrow> handleFileUpload_catch newFiles e st
      | Inr results \<Rightarrow>
          (let st1 = loadCollectionInfo (setProcessingStatus_each Completed newFiles st) in
           case get_prop results ''length'' of
             Inl e \<Rightarrow> handleFileUpload_catch newFiles e st1
           | Inr n \<Rightarrow> alert (UploadSucceeded n) st1))"

subsection \<open>\<open>handleSendMessage\<close> (App.js, lines 148 to 192)\<close>

definition failure_notice :: js_string where
  "failure_notice =
     utf16 (''Sorry, I encountered an error. Please make sure the backend is running at ''
            @ API_BASE)"

definition handleSendMessage :: "nat \<Rightarrow> state \<Rightarrow> state" where
  "handleSendMessage now st =
     (if trim (inputMessage st) = [] \<or> isThinking st then st
      else
        let userMessage = \<lparr>msg_id = toString now, role = User,
                           content = Some (JStr (inputMessage st)), sources = None,
                           timestamp = now\<rparr> in
        fetch (QueryPost (inputMessage st) 5) KQuery
          (st\<lparr>messages := messages st @ [userMessage], inputMessage := [],
              isThinking := True\<rparr>))"

text \<open>The object literal \<open>assistantMessage\<close>: both property reads can throw.\<close>

definition assistantMessage :: "nat \<Rightarrow> json \<Rightarrow> exn + message" where
  "assistantMessage now data =
     (case get_prop data ''answer'' of
        Inl e \<Rightarrow> Inl e
      | Inr a \<Rightarrow>
          (case get_prop data ''sources'' of
             Inl e \<Rightarrow> Inl e
           | Inr s \<Rightarrow>
               Inr \<lparr>msg_id = toString (now + 1), role = Assistant, content = a,
                    sources = (if truthy s then s else Some (JArr [])), timestamp = now\<rparr>))"

definition errorMessage :: "nat \<Rightarrow> message" where
  "errorMessage now =
     \<lparr>msg_id = toString (now + 1), role = Assistant,
      content = Some (JStr failure_notice), sources = None, timestamp = now\<rparr>"

definition handleSendMessage_catch :: "nat \<Rightarrow> exn \<Rightarrow> state \<Rightarrow> state" where
  "handleSendMessage_catch now e st =
     (let st1 = console_error (QueryFailed e) st in
      st1\<lparr>messages := messages st1 @ [errorMessage now]\<rparr>)"

definition handleSendMessage_resume :: "nat \<Rightarrow> fetch_result \<Rightarrow> state \<Rightarrow> state" where
  "handleSendMessage_resume now res st =
     (let st1 =
        (case fetch_json res of
           Inl e \<Rightarrow> handleSendMessage_catch now e st
         | Inr data \<Rightarrow>
             (case assistantMessage now data of
                Inl e \<Rightarrow> handleSendMessage_catch now e st
              | Inr m \<Rightarrow> st\<lparr>messages := messages st @ [m]\<rparr>))
      in st1\<lparr>isThinking := False\<rparr>)"

subsection \<open>\<open>removeFile\<close> (App.js, lines 194 to 201) and the input box\<close>

definition removeFile :: "string \<Rightarrow> state \<Rightarrow> state" where
  "removeFile fileId st =
     st\<lparr>uploadedFiles := filter (\<lambda>f. job_id f \<noteq> fileId) (uploadedFiles st),
        processingStatus := (processingStatus st)(fileId := None)\<rparr>"

definition setInputMessage :: "js_string \<Rightarrow> state \<Rightarrow> state" where
  "setInputMessage text st = st\<lparr>inputMessage := text\<rparr>"

definition setActiveTab :: "tab \<Rightarrow> state \<Rightarrow> state" where
  "setActiveTab t st = st\<lparr>activeTab := t\<rparr>"

text \<open>The status shown for a job: \<open>processingStatus[file.id] || 'pending'\<close>.\<close>

definition shown_status :: "state \<Rightarrow> string \<Rightarrow> job_status" where
  "shown_status st i = (case processingStatus st i of None \<Rightarrow> Pending | Some s \<Rightarrow> s)"

definition tracked_jobs :: "state \<Rightarrow> (job \<times> job_status) list" where
  "tracked_jobs st = map (\<lambda>f. (f, shown_status st (job_id f))) (uploadedFiles st)"

subsection \<open>The session: first render, then one event after another\<close>

definition greeting :: "nat \<Rightarrow> message" where
  "greeting now =
     \<lparr>msg_id = ''1'', role = Assistant,
      content = Some (JStr
        (utf16 ''Hello! I can help you find information from the document database. Ask me anything!'')),
      sources = None, timestamp = now\<rparr>"

text \<open>The mock numbers that \<open>analytics\<close> starts with; \<open>setAnalytics\<close> is never called.\<close>

definition mock_analytics :: analytics_data where
  "mock_analytics =
     \<lparr>totalChunks = 846, avgChunkSize = 512, totalTokens = 438464,
      documentTypes =
        [\<lparr>doc_type = ''PDF'', doc_count = 23, doc_percentage = 65\<rparr>,
         \<lparr>doc_type = ''DOCX'', doc_count = 10, doc_percentage = 28\<rparr>],
      chunkDistribution =
        [\<lparr>chunk_range = ''0-200'', chunk_count = 156\<rparr>,
         \<lparr>chunk_range = ''200-400'', chunk_count = 423\<rparr>,
         \<lparr>chunk_range = ''400-600'', chunk_count = 489\<rparr>],
      recentActivity =
        [\<lparr>action = ''Document uploaded'', activity_file = Some ''Q4_Report.pdf'',
          activity_query = None, activity_time = ''2 hours ago''\<rparr>,
         \<lparr>action = ''Query processed'', activity_file = None,
          activity_query = Some ''revenue growth'', activity_time = ''3 hours ago''\<rparr>,
         \<lparr>action = ''Document uploaded'', activity_file = Some ''Strategy_2024.docx'',
          activity_query = None, activity_time = ''5 hours ago''\<rparr>]\<rparr>"

definition useState_init :: "nat \<Rightarrow> state" where
  "useState_init now =
     \<lparr>activeTab = Chat, analytics = mock_analytics, uploadedFiles = [], processingStatus = Map.empty, messages = [greeting now],
      inputMessage = [], isThinking = False,
      collectionInfo = \<lparr>document_count = Some (JNum 0), total_chunks = Some (JNum 0)\<rparr>,
      requests = [], inflight = [], alerts = [], console = []\<rparr>"

text \<open>The effect that runs once after the first render calls \<open>loadCollectionInfo\<close>.\<close>

definition mount :: "nat \<Rightarrow> state" where
  "mount now = loadCollectionInfo (useState_init now)"

datatype event =
    SetActiveTab tab
  | TypeInput js_string
  | Send nat
  | SelectFiles "file_info list" "nat \<Rightarrow> string"
  | Remove string
  | Settle nat fetch_result nat

definition resume :: "continuation \<Rightarrow> fetch_result \<Rightarrow> nat \<Rightarrow> state \<Rightarrow> state" where
  "resume k res now st =
     (case k of
        KHealth \<Rightarrow> loadCollectionInfo_resume res st
      | KUpload newFiles \<Rightarrow> handleFileUpload_resume newFiles res st
      | KQuery \<Rightarrow> handleSendMessage_resume now res st)"

definition take_inflight :: "nat \<Rightarrow> state \<Rightarrow> state" where
  "take_inflight n st = st\<lparr>inflight := take n (inflight st) @ drop (Suc n) (inflight st)\<rparr>"

text \<open>
  \<open>Settle n res now\<close>: the request of the \<open>n\<close>-th suspended handler settles with
  \<open>res\<close> at time \<open>now\<close>, and that handler runs to its end. Nothing happens when there
  is no such handler.
\<close>

fun fire :: "event \<Rightarrow> state \<Rightarrow> state" where
  "fire (SetActiveTab t) st = setActiveTab t st"
| "fire (TypeInput text) st = setInputMessage text st"
| "fire (Send now) st = handleSendMessage now st"
| "fire (SelectFiles files draw) st = handleFileUpload files draw st"
| "fire (Remove fileId) st = removeFile fileId st"
| "fire (Settle n res now) st =
     (if n < length (inflight st)
      then resume (inflight st ! n) res now (take_inflight n st)
      else st)"

definition run :: "event list \<Rightarrow> state \<Rightarrow> state" where
  "run evs st = foldl (\<lambda>s e. fire e s) st evs"

subsection \<open>What is shown (App.js, lines 226 to 586)\<close>

text \<open>
  The component shows the panel of the active tab. The values are given as they are in
  the state, before they are laid out: the four cards of the dashboard (lines 302 to 338),
  with the token count in thousands as \<open>toFixed(0)\<close> rounds it, and its three lists;
  the transcript, the typing indicator and the input box of the chat; the tracked jobs
  with the status shown for each. The header of App.js (lines 243 to 257) shows none of
  these cells.
\<close>

record stats_cards =
  card_total_chunks :: nat
  card_avg_chunk_size :: nat
  card_total_tokens_K :: nat
  card_documents :: "json option"

datatype view =
    DashboardView stats_cards "document_type_row list" "chunk_range_row list" "activity_row list"
  | ChatView "message list" bool js_string
  | DocumentsView "(job \<times> job_status) list"

definition dashboard_cards :: "state \<Rightarrow> stats_cards" where
  "dashboard_cards st =
     \<lparr>card_total_chunks = totalChunks (analytics st),
      card_avg_chunk_size = avgChunkSize (analytics st),
      card_total_tokens_K = (totalTokens (analytics st) + 500) div 1000,
      card_documents = document_count (collectionInfo st)\<rparr>"

definition render :: "state \<Rightarrow> view" where
  "render st =
     (case activeTab st of
        Dashboard \<Rightarrow>
          DashboardView (dashboard_cards st) (documentTypes (analytics st))
            (chunkDistribution (analytics st)) (recentActivity (analytics st))
      | Chat \<Rightarrow> ChatView (messages st) (isThinking st) (inputMessage st)
      | Documents \<Rightarrow> DocumentsView (tracked_jobs st))"

text \<open>
  The other copy of the component (part_000) has no dashboard. Its header (lines 196 to
  205) shows the two cached counts, \<open>Documents\<close> and \<open>Chunks\<close>, on every tab.
\<close>

definition header_part_000 :: "state \<Rightarrow> json option \<times> json option" where
  "header_part_000 st =
     (document_count (collectionInfo st), total_chunks (collectionInfo st))"

subsection \<open>Concrete files, draws and backend answers\<close>

definition two_files :: "file_info list" where
  "two_files =
     [\<lparr>file_name = ''a.pdf'', file_size = 10\<rparr>, \<lparr>file_name = ''b.txt'', file_size = 20\<rparr>]"

definition draw_ab :: "nat \<Rightarrow> string" where
  "draw_ab i = (if i = 0 then ''k3j9x0q1a'' else ''z8m2c4v7b'')"

text \<open>A 500 answer with a JSON body, as a web framework sends for an unhandled error.\<close>

definition error_500 :: fetch_result where
  "error_500 =
     Resolved \<lparr>status = 500, body = Some (JObj [(''detail'', JStr (utf16 ''Internal Server Error''))])\<rparr>"

text \<open>A 503 answer of the health endpoint that still reports its collection.\<close>

definition degraded_503 :: fetch_result where
  "degraded_503 =
     Resolved \<lparr>status = 503,
       body = Some (JObj [(''status'', JStr (utf16 ''degraded'')),
                          (''collection'', JObj [(''document_count'', JNum 5)])])\<rparr>"

text \<open>A 200 answer of the upload endpoint: an array with one entry for each file.\<close>

definition uploaded_200 :: fetch_result where
  "uploaded_200 =
     Resolved \<lparr>status = 200, body = Some (JArr [JStr (utf16 ''a.pdf''), JStr (utf16 ''b.txt'')])\<rparr>"

text \<open>The backend's answer to the refund question, with one citation.\<close>

definition refund_200 :: fetch_result where
  "refund_200 =
     Resolved \<lparr>status = 200,
       body = Some (JObj [(''answer'', JStr (utf16 ''30 days'')),
                          (''sources'', JArr [JObj [(''filename'', JStr (utf16 ''policy.pdf'')),
                                                    (''page'', JNum 3),
                                                    (''relevance'', JNum (92 / 100))]])])\<rparr>"

definition refund_session :: "event list" where
  "refund_session = [TypeInput (utf16 ''What is the refund policy?''), Send 1000]"

text \<open>A second selection, made while the first upload is still in flight.\<close>

definition other_files :: "file_info list" where
  "other_files = [\<lparr>file_name = ''notes.DOCX'', file_size = 2048\<rparr>]"

definition draw_c :: "nat \<Rightarrow> string" where
  "draw_c i = ''p5w1n6t0d''"

definition two_batches :: "event list" where
  "two_batches = [SelectFiles two_files draw_ab, SelectFiles other_files draw_c]"

text \<open>The health endpoint's answer at startup: a collection of 7 documents.\<close>

definition blank_text :: js_string where
  "blank_text = [0x00A0, 0x0020, 0x3000, 0xFEFF, 0x2003, 0x0009]"

definition health_7 :: fetch_result where
  "health_7 =
     Resolved \<lparr>status = 200,
       body = Some (JObj [(''collection'', JObj [(''document_count'', JNum 7)])])\<rparr>"

definition dashboard_session :: "event list" where
  "dashboard_session = [SetActiveTab Dashboard, Settle 0 health_7 1]"

subsection \<open>The shape of a transcript\<close>

text \<open>
  \<open>turns ms awaiting\<close>: the messages \<open>ms\<close> are user and assistant messages in
  turn, starting with a user message; the last user message is still without its
  assistant message exactly when \<open>awaiting\<close> holds. \<open>session_ok\<close> says that the
  transcript is the greeting followed by such turns, with \<open>isThinking\<close> as the
  awaiting flag, and that the number of suspended \<open>handleSendMessage\<close> calls is one
  when \<open>isThinking\<close> is set and none otherwise.
\<close>

fun turns :: "message list \<Rightarrow> bool \<Rightarrow> bool" where
  "turns [] awaiting = (\<not> awaiting)"
| "turns [u] awaiting = (role u = User \<and> awaiting)"
| "turns (u # a # rest) awaiting = (role u = User \<and> role a = Assistant \<and> turns rest awaiting)"

definition session_ok :: "nat \<Rightarrow> state \<Rightarrow> bool" where
  "session_ok t0 st =
     ((case messages st of
         [] \<Rightarrow> False
       | g # rest \<Rightarrow> g = greeting t0 \<and> turns rest (isThinking st))
      \<and> count_list (inflight st) KQuery = (if isThinking st then 1 else 0))"

subsection \<open>Draws that do not collide\<close>

text \<open>
  The code draws a job id with \<open>Math.random\<close> and never compares it with the ids in
  use. \<open>collision_free\<close> says of one selection that its draws differ from each other
  and from the ids of the tracked jobs; \<open>draws_collision_free\<close> says so of every
  selection in a sequence of events.
\<close>

definition collision_free :: "file_info list \<Rightarrow> (nat \<Rightarrow> string) \<Rightarrow> state \<Rightarrow> bool" where
  "collision_free files draw st =
     (distinct (map draw [0..<length files])
      \<and> set (map draw [0..<length files]) \<inter> job_id ` set (uploadedFiles st) = {})"

fun draws_collision_free :: "event list \<Rightarrow> state \<Rightarrow> bool" where
  "draws_collision_free [] st = True"
| "draws_collision_free (SelectFiles files draw # evs) st =
     (collision_free files draw st
      \<and> draws_collision_free evs (fire (SelectFiles files draw) st))"
| "draws_collision_free (e # evs) st = draws_collision_free evs (fire e st)"

section \<open>Properties\<close>

subsection \<open>Auxiliary facts\<close>

lemma fold_status:
  "fold (\<lambda>f m. m(job_id f \<mapsto> s)) js m i = (if i \<in> job_id ` set js then Some s else m i)"
  by (induction js arbitrary: m) auto

lemma each_status [simp]:
  "processingStatus (setProcessingStatus_each s js st) i =
     (if i \<in> job_id ` set js then Some s else processingStatus st i)"
  by (simp add: setProcessingStatus_each_def fold_status)

lemma each_other [simp]:
  "uploadedFiles (setProcessingStatus_each s js st) = uploadedFiles st"
  "messages (setProcessingStatus_each s js st) = messages st"
  "inputMessage (setProcessingStatus_each s js st) = inputMessage st"
  "isThinking (setProcessingStatus_each s js st) = isThinking st"
  "collectionInfo (setProcessingStatus_each s js st) = collectionInfo st"
  "requests (setProcessingStatus_each s js st) = requests st"
  "inflight (setProcessingStatus_each s js st) = inflight st"
  "alerts (setProcessingStatus_each s js st) = alerts st"
  "console (setProcessingStatus_each s js st) = console st"
  by (simp_all add: setProcessingStatus_each_def)

lemma trim_blank: "trim blank_text = []"
  by (simp add: trim_def is_space_def blank_text_def)

lemma trim_question: "trim (utf16 ''What is the refund policy?'') \<noteq> []"
  by (simp add: trim_def is_space_def utf16_def)

lemma trim_hi: "trim (utf16 ''hi'') \<noteq> []"
  by (simp add: trim_def is_space_def utf16_def)

lemma two_files_nonempty: "two_files \<noteq> []"
  by (simp add: two_files_def)

lemma newFiles_ab:
  "make_newFiles draw_ab two_files =
     [\<lparr>job_id = ''k3j9x0q1a'', job_name = ''a.pdf'', job_size = 10, job_type = ''pdf'',
       job_status = Pending\<rparr>,
      \<lparr>job_id = ''z8m2c4v7b'', job_name = ''b.txt'', job_size = 20, job_type = ''txt'',
       job_status = Pending\<rparr>]"
  by (simp add: make_newFiles_def two_files_def draw_ab_def make_job_def enumerate_eq_zip
      upt_rec toLowerCase_def split_pop_def toLowerCase_char_def Let_def)

lemma catch_messages:
  "messages (handleSendMessage_catch now e st) = messages st @ [errorMessage now]"
  by (simp add: handleSendMessage_catch_def console_error_def)

lemma assistantMessage_role:
  "assistantMessage now d = Inr m \<Longrightarrow> role m = Assistant"
  by (auto simp: assistantMessage_def split: sum.splits)

lemma resume_messages:
  "messages (handleSendMessage_resume now res st) =
     messages st @ [case fetch_json res of
                      Inl e \<Rightarrow> errorMessage now
                    | Inr d \<Rightarrow> (case assistantMessage now d of
                                  Inl e \<Rightarrow> errorMessage now | Inr m \<Rightarrow> m)]"
  by (simp add: handleSendMessage_resume_def catch_messages split: sum.splits)

lemma resume_status:
  "processingStatus (handleFileUpload_resume newFiles res st) i =
     (if i \<in> job_id ` set newFiles
      then Some (case fetch_json res of
                   Inl e \<Rightarrow> Error
                 | Inr d \<Rightarrow> (case get_prop d ''length'' of Inl e \<Rightarrow> Error | Inr n \<Rightarrow> Completed))
      else processingStatus st i)"
  by (simp add: handleFileUpload_resume_def handleFileUpload_catch_def loadCollectionInfo_def
      fetch_def alert_def console_error_def Let_def split: sum.splits)

lemma resume_uploadedFiles:
  "uploadedFiles (handleFileUpload_resume newFiles res st) = uploadedFiles st"
  by (simp add: handleFileUpload_resume_def handleFileUpload_catch_def loadCollectionInfo_def
      fetch_def alert_def console_error_def Let_def split: sum.splits)

lemma length_newFiles: "length (make_newFiles draw files) = length files"
  by (simp add: make_newFiles_def)

lemma newFiles_pending: "f \<in> set (make_newFiles draw files) \<Longrightarrow> job_status f = Pending"
  by (auto simp: make_newFiles_def make_job_def)

lemma filter_other_length:
  "distinct (map g xs) \<Longrightarrow> x \<in> g ` set xs \<Longrightarrow> Suc (length (filter (\<lambda>y. g y \<noteq> x) xs)) = length xs"
proof (induction xs)
  case Nil
  then show ?case by simp
next
  case (Cons y ys)
  show ?case
  proof (cases "g y = x")
    case True
    with Cons.prems have "x \<notin> g ` set ys" by auto
    then have "filter (\<lambda>y. g y \<noteq> x) ys = ys"
      by (auto simp: filter_id_conv)
    with True show ?thesis by simp
  next
    case False
    with Cons show ?thesis by auto
  qed
qed

lemma upload_ab:
  "handleFileUpload two_files draw_ab (mount 0) =
     (mount 0)\<lparr>uploadedFiles := make_newFiles draw_ab two_files,
       processingStatus := [''k3j9x0q1a'' \<mapsto> Processing, ''z8m2c4v7b'' \<mapsto> Processing],
       requests := [HealthGet, UploadPost two_files],
       inflight := [KHealth, KUpload (make_newFiles draw_ab two_files)]\<rparr>"
  by (simp add: handleFileUpload_def two_files_nonempty fetch_def append_newFiles_def mount_def
      loadCollectionInfo_def useState_init_def Let_def setProcessingStatus_each_def newFiles_ab)

lemma run_Nil [simp]: "run [] st = st"
  by (simp add: run_def)

lemma run_snoc [simp]: "run (evs @ [e]) st = fire e (run evs st)"
  by (simp add: run_def)

lemma run_Cons: "run (e # evs) st = run evs (fire e st)"
  by (simp add: run_def)

lemma nth_survives:
  "m < length xs \<Longrightarrow> m \<noteq> n \<Longrightarrow> xs ! m \<in> set (take n xs @ drop (Suc n) xs)"
proof (cases "m < n")
  case True
  assume "m < length xs"
  with True have "xs ! m = take n xs ! m" "m < length (take n xs)"
    by simp_all
  then show ?thesis
    by (metis UnI1 nth_mem set_append)
next
  case False
  assume a: "m < length xs" "m \<noteq> n"
  with False have "Suc n \<le> m" by simp
  with a have "xs ! m \<in> set (drop (Suc n) xs)"
    by (metis in_set_conv_nth Cons_nth_drop_Suc list.set_intros(1) set_drop_subset_set_drop subsetD)
  then show ?thesis by simp
qed

lemma resume_inflight:
  "set (inflight st) \<subseteq> set (inflight (handleFileUpload_resume batch res st))"
  by (auto simp: handleFileUpload_resume_def handleFileUpload_catch_def loadCollectionInfo_def
      fetch_def alert_def console_error_def Let_def split: sum.splits)

lemma other_files_nonempty: "other_files \<noteq> []"
  by (simp add: other_files_def)

lemma newFiles_c:
  "make_newFiles draw_c other_files =
     [\<lparr>job_id = ''p5w1n6t0d'', job_name = ''notes.DOCX'', job_size = 2048,
       job_type = ''docx'', job_status = Pending\<rparr>]"
  by code_simp

lemma batches_ab_c:
  "run two_batches (mount 0) =
     (mount 0)\<lparr>uploadedFiles := make_newFiles draw_ab two_files @ make_newFiles draw_c other_files,
       processingStatus := [''k3j9x0q1a'' \<mapsto> Processing, ''z8m2c4v7b'' \<mapsto> Processing,
                            ''p5w1n6t0d'' \<mapsto> Processing],
       requests := [HealthGet, UploadPost two_files, UploadPost other_files],
       inflight := [KHealth, KUpload (make_newFiles draw_ab two_files),
                    KUpload (make_newFiles draw_c other_files)]\<rparr>"
proof -
  have "run two_batches (mount 0) =
          handleFileUpload other_files draw_c (handleFileUpload two_files draw_ab (mount 0))"
    by (simp add: two_batches_def run_Cons)
  also have "\<dots> = handleFileUpload other_files draw_c
      ((mount 0)\<lparr>uploadedFiles := make_newFiles draw_ab two_files,
       processingStatus := [''k3j9x0q1a'' \<mapsto> Processing, ''z8m2c4v7b'' \<mapsto> Processing],
       requests := [HealthGet, UploadPost two_files],
       inflight := [KHealth, KUpload (make_newFiles draw_ab two_files)]\<rparr>)"
    by (simp only: upload_ab)
  finally show ?thesis
    by (simp add: handleFileUpload_def [of other_files] other_files_nonempty fetch_def
        append_newFiles_def setProcessingStatus_each_def newFiles_c Let_def)
qed

lemma refund_sent:
  "run refund_session (mount 0) =
     (mount 0)\<lparr>messages := [greeting 0,
         \<lparr>msg_id = ''1000'', role = User, content = Some (JStr (utf16 ''What is the refund policy?'')),
          sources = None, timestamp = 1000\<rparr>],
       isThinking := True,
       requests := [HealthGet, QueryPost (utf16 ''What is the refund policy?'') 5],
       inflight := [KHealth, KQuery]\<rparr>"
  by (simp add: refund_session_def run_def mount_def useState_init_def loadCollectionInfo_def
      fetch_def setInputMessage_def handleSendMessage_def trim_question
      toString.simps digit_char_def Let_def)

lemma turns_snoc_user:
  "turns rest False \<Longrightarrow> role u = User \<Longrightarrow> turns (rest @ [u]) True"
  by (induction rest "False" rule: turns.induct) auto

lemma turns_snoc_assistant:
  "turns rest True \<Longrightarrow> role a = Assistant \<Longrightarrow> turns (rest @ [a]) False"
  by (induction rest "True" rule: turns.induct) auto

lemma count_list_removed:
  assumes "n < length xs"
  shows "count_list xs y = count_list (take n xs @ drop (Suc n) xs) y + (if xs ! n = y then 1 else 0)"
proof -
  from assms have "xs = take n xs @ xs ! n # drop (Suc n) xs"
    by (rule id_take_nth_drop)
  then have "count_list xs y = count_list (take n xs @ xs ! n # drop (Suc n) xs) y"
    by simp
  then show ?thesis
    by simp
qed

lemma health_resume_frame:
  "messages (loadCollectionInfo_resume res st) = messages st"
  "isThinking (loadCollectionInfo_resume res st) = isThinking st"
  "inflight (loadCollectionInfo_resume res st) = inflight st"
  by (simp_all add: loadCollectionInfo_resume_def console_error_def split: sum.splits)

lemma upload_resume_frame:
  "messages (handleFileUpload_resume batch res st) = messages st"
  "isThinking (handleFileUpload_resume batch res st) = isThinking st"
  "count_list (inflight (handleFileUpload_resume batch res st)) KQuery = count_list (inflight st) KQuery"
  "collectionInfo (handleFileUpload_resume batch res st) = collectionInfo st"
  by (simp_all add: handleFileUpload_resume_def handleFileUpload_catch_def loadCollectionInfo_def
      fetch_def alert_def console_error_def Let_def split: sum.splits)

lemma query_resume_frame:
  "inflight (handleSendMessage_resume now res st) = inflight st"
  "isThinking (handleSendMessage_resume now res st) = False"
  "collectionInfo (handleSendMessage_resume now res st) = collectionInfo st"
  by (simp_all add: handleSendMessage_resume_def handleSendMessage_catch_def console_error_def
      Let_def split: sum.splits)

lemma resume_message_role:
  "role (case fetch_json res of
           Inl e \<Rightarrow> errorMessage now
         | Inr d \<Rightarrow> (case assistantMessage now d of
                       Inl e \<Rightarrow> errorMessage now | Inr m \<Rightarrow> m)) = Assistant"
  by (auto simp: errorMessage_def assistantMessage_role split: sum.splits)

lemma fire_appends:
  "\<exists>new. messages (fire e st) = messages st @ new \<and> length new \<le> 1"
proof (cases e)
  case (Settle n res now)
  show ?thesis
  proof (cases "n < length (inflight st)")
    case True
    then show ?thesis
      by (cases "inflight st ! n")
        (simp_all add: Settle resume_def take_inflight_def health_resume_frame
          upload_resume_frame resume_messages)
  next
    case False
    then show ?thesis by (simp add: Settle)
  qed
qed (simp_all add: setActiveTab_def setInputMessage_def handleSendMessage_def fetch_def Let_def
    handleFileUpload_def append_newFiles_def removeFile_def)

lemma send_ok:
  assumes "session_ok t0 st"
  shows "session_ok t0 (handleSendMessage now st)"
proof (cases "trim (inputMessage st) = [] \<or> isThinking st")
  case True
  with assms show ?thesis by (simp add: handleSendMessage_def)
next
  case False
  from assms obtain rest where m: "messages st = greeting t0 # rest" "turns rest (isThinking st)"
    by (auto simp: session_ok_def split: list.splits)
  from False m have "turns rest False" by simp
  then have "turns (rest @ [\<lparr>msg_id = toString now, role = User,
      content = Some (JStr (inputMessage st)), sources = None, timestamp = now\<rparr>]) True"
    by (rule turns_snoc_user) simp
  with assms False m show ?thesis
    by (simp add: session_ok_def handleSendMessage_def fetch_def Let_def)
qed

lemma settle_ok:
  assumes ok: "session_ok t0 st" and n: "n < length (inflight st)"
  shows "session_ok t0 (resume (inflight st ! n) res now (take_inflight n st))"
proof -
  from ok obtain rest where m: "messages st = greeting t0 # rest" "turns rest (isThinking st)"
    and c: "count_list (inflight st) KQuery = (if isThinking st then 1 else 0)"
    by (auto simp: session_ok_def split: list.splits)
  let ?st = "take_inflight n st"
  have c': "count_list (inflight st) KQuery =
      count_list (inflight ?st) KQuery + (if inflight st ! n = KQuery then 1 else 0)"
    using count_list_removed [OF n] by (simp add: take_inflight_def)
  have fr: "messages ?st = messages st" "isThinking ?st = isThinking st"
    by (simp_all add: take_inflight_def)
  show ?thesis
  proof (cases "inflight st ! n")
    case KHealth
    with m c c' fr show ?thesis
      by (simp add: session_ok_def resume_def health_resume_frame)
  next
    case (KUpload batch)
    with m c c' fr show ?thesis
      by (simp add: session_ok_def resume_def upload_resume_frame)
  next
    case KQuery
    with c c' have th: "isThinking st" and z: "count_list (inflight ?st) KQuery = 0"
      by (auto split: if_splits)
    from m th have "turns rest True" by simp
    then have "turns (rest @ [case fetch_json res of
           Inl e \<Rightarrow> errorMessage now
         | Inr d \<Rightarrow> (case assistantMessage now d of
                       Inl e \<Rightarrow> errorMessage now | Inr m \<Rightarrow> m)]) False"
      using resume_message_role by (rule turns_snoc_assistant)
    with KQuery m fr z show ?thesis
      by (simp add: session_ok_def resume_def resume_messages query_resume_frame)
  qed
qed

lemma fire_ok: "session_ok t0 st \<Longrightarrow> session_ok t0 (fire e st)"
proof (cases e)
  case (Send now)
  assume "session_ok t0 st"
  then show ?thesis unfolding Send fire.simps by (rule send_ok)
next
  case (Settle n res now)
  assume "session_ok t0 st"
  then show ?thesis using settle_ok [of t0 st n res now] by (simp add: Settle)
qed (auto simp: session_ok_def setActiveTab_def setInputMessage_def handleFileUpload_def fetch_def
    append_newFiles_def removeFile_def Let_def split: list.splits)

lemma mount_ok: "session_ok t0 (mount t0)"
  by (simp add: session_ok_def mount_def loadCollectionInfo_def fetch_def useState_init_def)

lemma run_ok: "session_ok t0 (run evs (mount t0))"
  by (induction evs rule: rev_induct) (simp_all add: mount_ok fire_ok)

lemma fire_mirror:
  assumes "total_chunks (collectionInfo st) = document_count (collectionInfo st)"
  shows "total_chunks (collectionInfo (fire e st)) = document_count (collectionInfo (fire e st))"
proof (cases e)
  case (Settle n res now)
  show ?thesis
  proof (cases "n < length (inflight st)")
    case True
    with assms show ?thesis
      by (cases "inflight st ! n")
        (auto simp: Settle resume_def take_inflight_def upload_resume_frame query_resume_frame
          loadCollectionInfo_resume_def console_error_def split: sum.splits)
  next
    case False
    with assms show ?thesis by (simp add: Settle)
  qed
qed (use assms in \<open>simp_all add: setActiveTab_def setInputMessage_def handleSendMessage_def fetch_def Let_def
    handleFileUpload_def append_newFiles_def removeFile_def\<close>)

lemma run_mirror:
  "total_chunks (collectionInfo (run evs (mount t0))) =
     document_count (collectionInfo (run evs (mount t0)))"
  by (induction evs rule: rev_induct)
    (simp_all add: fire_mirror, simp add: mount_def loadCollectionInfo_def fetch_def useState_init_def)

text \<open>While the draws do not collide, the tracked jobs have pairwise different ids.\<close>

lemma newFiles_ids: "map job_id (make_newFiles draw files) = map draw [0..<length files]"
proof -
  have "map job_id (make_newFiles draw files) = map (\<lambda>x. draw (fst x)) (enumerate 0 files)"
    by (simp add: make_newFiles_def make_job_def case_prod_unfold)
  also have "\<dots> = map draw (map fst (enumerate 0 files))"
    by (simp only: map_map comp_def)
  also have "\<dots> = map draw [0..<length files]"
    by (simp add: map_fst_enumerate)
  finally show ?thesis .
qed

lemma fire_keeps_ids_distinct:
  assumes "distinct (map job_id (uploadedFiles st))"
    and "\<And>files draw. e = SelectFiles files draw \<Longrightarrow> collision_free files draw st"
  shows "distinct (map job_id (uploadedFiles (fire e st)))"
proof (cases e)
  case (SelectFiles files draw)
  with assms(2) have "collision_free files draw st" by simp
  with assms(1) show ?thesis
    by (auto simp: SelectFiles handleFileUpload_def fetch_def append_newFiles_def Let_def
        newFiles_ids collision_free_def simp flip: set_map)
next
  case (Settle n res now)
  show ?thesis
  proof (cases "n < length (inflight st)")
    case True
    with assms(1) show ?thesis
      by (cases "inflight st ! n")
        (simp_all add: Settle resume_def take_inflight_def resume_uploadedFiles
          loadCollectionInfo_resume_def console_error_def handleSendMessage_resume_def
          handleSendMessage_catch_def Let_def split: sum.splits)
  next
    case False
    with assms(1) show ?thesis by (simp add: Settle)
  qed
qed (use assms(1) in \<open>simp_all add: setActiveTab_def setInputMessage_def handleSendMessage_def fetch_def Let_def
    removeFile_def distinct_map_filter\<close>)

lemma draws_collision_free_Cons:
  assumes "draws_collision_free (e # evs) st"
  shows "draws_collision_free evs (fire e st)"
    and "e = SelectFiles files draw \<Longrightarrow> collision_free files draw st"
  using assms by (cases e; simp)+

lemma ids_stay_distinct:
  "distinct (map job_id (uploadedFiles st)) \<Longrightarrow> draws_collision_free evs st \<Longrightarrow>
     distinct (map job_id (uploadedFiles (run evs st)))"
proof (induction evs arbitrary: st)
  case Nil
  then show ?case by simp
next
  case (Cons e evs)
  from Cons.prems have "distinct (map job_id (uploadedFiles (fire e st)))"
    by (intro fire_keeps_ids_distinct draws_collision_free_Cons(2))
  moreover from Cons.prems(2) have "draws_collision_free evs (fire e st)"
    by (rule draws_collision_free_Cons(1))
  ultimately show ?case
    by (simp add: run_Cons Cons.IH)
qed

text \<open>No handler writes \<open>analytics\<close>, and nothing shown reads \<open>total_chunks\<close>.\<close>

lemma fire_analytics: "analytics (fire e st) = analytics st"
proof (cases e)
  case (Settle n res now)
  show ?thesis
  proof (cases "n < length (inflight st)")
    case True
    then show ?thesis
      by (cases "inflight st ! n")
        (simp_all add: Settle resume_def take_inflight_def loadCollectionInfo_resume_def
          handleFileUpload_resume_def handleFileUpload_catch_def loadCollectionInfo_def
          handleSendMessage_resume_def handleSendMessage_catch_def setProcessingStatus_each_def
          fetch_def alert_def console_error_def Let_def split: sum.splits)
  next
    case False
    then show ?thesis by (simp add: Settle)
  qed
qed (simp_all add: setActiveTab_def setInputMessage_def handleSendMessage_def fetch_def Let_def
    handleFileUpload_def append_newFiles_def setProcessingStatus_each_def removeFile_def)

lemma run_analytics: "analytics (run evs (mount t0)) = mock_analytics"
  by (induction evs rule: rev_induct)
    (simp_all add: fire_analytics, simp add: mount_def loadCollectionInfo_def fetch_def useState_init_def)

lemma render_ignores_total_chunks:
  "render (st\<lparr>collectionInfo := (collectionInfo st)\<lparr>total_chunks := x\<rparr>\<rparr>) = render st"
  by (simp add: render_def dashboard_cards_def tracked_jobs_def shown_status_def
      split: tab.split)

lemma mount_analytics: "analytics (mount t0) = mock_analytics"
  by (simp add: mount_def loadCollectionInfo_def fetch_def useState_init_def)

lemma dashboard_ab:
  "run dashboard_session (mount 0) =
     (mount 0)\<lparr>activeTab := Dashboard,
       collectionInfo := \<lparr>document_count = Some (JNum 7), total_chunks = Some (JNum 7)\<rparr>,
       inflight := []\<rparr>"
  by (simp add: dashboard_session_def run_Cons setActiveTab_def health_7_def resume_def
      take_inflight_def mount_def loadCollectionInfo_def fetch_def useState_init_def
      loadCollectionInfo_resume_def read_document_count_def)

subsection \<open>The upload path\<close>

text \<open>
  C1, as the code has it. The claim names two kinds of failure. A transport error rejects
  \<open>fetch\<close>, the \<open>catch\<close> block runs, every job of the batch is shown as \<open>error\<close>,
  and \<open>loadCollectionInfo\<close> is not called: no request goes out and the cached summary
  stays. The same holds for a response of any status whose body is not JSON. The status
  code itself is never read, so this is all that a failed upload guarantees.
\<close>

theorem upload_failure_marks_batch_error:
  assumes "res = Rejected \<or> (\<exists>r. res = Resolved r \<and> body r = None)"
  shows "(\<forall>f \<in> set newFiles.
            shown_status (handleFileUpload_resume newFiles res st) (job_id f) = Error)
       \<and> requests (handleFileUpload_resume newFiles res st) = requests st
       \<and> inflight (handleFileUpload_resume newFiles res st) = inflight st
       \<and> collectionInfo (handleFileUpload_resume newFiles res st) = collectionInfo st
       \<and> alerts (handleFileUpload_resume newFiles res st) = alerts st @ [UploadFailed]"
proof -
  from assms obtain e where "fetch_json res = Inl e"
    by auto
  then have "handleFileUpload_resume newFiles res st = handleFileUpload_catch newFiles e st"
    by (simp add: handleFileUpload_resume_def)
  then show ?thesis
    by (simp add: handleFileUpload_catch_def shown_status_def alert_def console_error_def)
qed

theorem upload_failure_marks_batch_error_witness:
  "map (shown_status (handleFileUpload_resume (make_newFiles draw_ab two_files) Rejected
          (handleFileUpload two_files draw_ab (mount 0))))
     [''k3j9x0q1a'', ''z8m2c4v7b''] = [Error, Error]
   \<and> requests (handleFileUpload_resume (make_newFiles draw_ab two_files) Rejected
        (handleFileUpload two_files draw_ab (mount 0))) = [HealthGet, UploadPost two_files]
   \<and> collectionInfo (handleFileUpload_resume (make_newFiles draw_ab two_files) Rejected
        (handleFileUpload two_files draw_ab (mount 0))) = collectionInfo (mount 0)"
  using upload_failure_marks_batch_error
    [of Rejected "make_newFiles draw_ab two_files" "handleFileUpload two_files draw_ab (mount 0)"]
  by (simp add: upload_ab newFiles_ab)

text \<open>
  C1 as stated fails: two files are selected and the backend answers 500 with a JSON
  body. Both jobs end as \<open>completed\<close> and a health request is sent to refresh the
  summary.
\<close>

theorem upload_non_2xx_completes:
  "non_2xx \<lparr>status = 500, body = Some (JObj [(''detail'', JStr (utf16 ''Internal Server Error''))])\<rparr>
   \<and> map (shown_status (run [SelectFiles two_files draw_ab, Settle 1 error_500 1] (mount 0)))
        [''k3j9x0q1a'', ''z8m2c4v7b''] = [Completed, Completed]
   \<and> requests (run [SelectFiles two_files draw_ab, Settle 1 error_500 1] (mount 0))
        = [HealthGet, UploadPost two_files, HealthGet]"
  by (simp add: non_2xx_def run_def mount_def useState_init_def loadCollectionInfo_def fetch_def
      handleFileUpload_def newFiles_ab two_files_nonempty append_newFiles_def take_inflight_def
      resume_def handleFileUpload_resume_def error_500_def alert_def shown_status_def Let_def)

text \<open>
  C4: a selection of \<open>N \<ge> 1\<close> files makes \<open>N\<close> jobs, each created with status
  \<open>pending\<close> and appended to the tracked sequence while no request has been sent
  (\<open>st1\<close>). Still in the same run of the handler all of them are given the status
  \<open>processing\<close> and one upload request carrying all the files goes out (\<open>st2\<close>).
  When that request settles, in whatever state \<open>st'\<close> the session then is, the
  remainder of the handler leaves all jobs of the batch with the same shown status, which
  is \<open>completed\<close> or \<open>error\<close> and not both (\<open>st3\<close>).
\<close>

theorem batch_lifecycle:
  assumes "files \<noteq> []"
  shows "let newFiles = make_newFiles draw files;
             st1 = append_newFiles newFiles st;
             st2 = handleFileUpload files draw st;
             st3 = handleFileUpload_resume newFiles res st'
         in length newFiles = length files
          \<and> (\<forall>f \<in> set newFiles. job_status f = Pending)
          \<and> uploadedFiles st1 = uploadedFiles st @ newFiles
          \<and> requests st1 = requests st
          \<and> (\<forall>f \<in> set newFiles. processingStatus st (job_id f) = None
                \<longrightarrow> shown_status st1 (job_id f) = Pending)
          \<and> st2 = fetch (UploadPost files) (KUpload newFiles)
                    (setProcessingStatus_each Processing newFiles st1)
          \<and> uploadedFiles st2 = uploadedFiles st @ newFiles
          \<and> (\<forall>f \<in> set newFiles. shown_status st2 (job_id f) = Processing)
          \<and> requests st2 = requests st @ [UploadPost files]
          \<and> inflight st2 = inflight st @ [KUpload newFiles]
          \<and> ((\<forall>f \<in> set newFiles. shown_status st3 (job_id f) = Completed)
              \<or> (\<forall>f \<in> set newFiles. shown_status st3 (job_id f) = Error))
          \<and> \<not> ((\<forall>f \<in> set newFiles. shown_status st3 (job_id f) = Completed)
              \<and> (\<forall>f \<in> set newFiles. shown_status st3 (job_id f) = Error))"
proof -
  define newFiles where "newFiles = make_newFiles draw files"
  define st1 where "st1 = append_newFiles newFiles st"
  define st2 where "st2 = handleFileUpload files draw st"
  define st3 where "st3 = handleFileUpload_resume newFiles res st'"
  define outcome where "outcome =
    (case fetch_json res of
       Inl e \<Rightarrow> Error
     | Inr d \<Rightarrow> (case get_prop d ''length'' of Inl e \<Rightarrow> Error | Inr n \<Rightarrow> Completed))"
  have len: "length newFiles = length files"
    by (simp add: newFiles_def length_newFiles)
  with assms obtain f0 where f0: "f0 \<in> set newFiles"
    by (cases newFiles) auto
  have pend: "\<forall>f \<in> set newFiles. job_status f = Pending"
    by (simp add: newFiles_def newFiles_pending)
  have a1: "uploadedFiles st1 = uploadedFiles st @ newFiles" "requests st1 = requests st"
    by (simp_all add: st1_def append_newFiles_def)
  have a2: "\<forall>f \<in> set newFiles. processingStatus st (job_id f) = None
                \<longrightarrow> shown_status st1 (job_id f) = Pending"
    by (simp add: st1_def append_newFiles_def shown_status_def)
  have b: "st2 = fetch (UploadPost files) (KUpload newFiles)
                    (setProcessingStatus_each Processing newFiles st1)"
    using assms by (simp add: st2_def handleFileUpload_def newFiles_def st1_def Let_def)
  have b1: "uploadedFiles st2 = uploadedFiles st @ newFiles"
    "requests st2 = requests st @ [UploadPost files]"
    "inflight st2 = inflight st @ [KUpload newFiles]"
    by (simp_all add: b fetch_def st1_def append_newFiles_def)
  have b2: "\<forall>f \<in> set newFiles. shown_status st2 (job_id f) = Processing"
    by (simp add: b fetch_def shown_status_def)
  have c: "\<forall>f \<in> set newFiles. shown_status st3 (job_id f) = outcome"
    by (simp add: st3_def shown_status_def resume_status outcome_def)
  have o: "outcome = Completed \<or> outcome = Error"
    by (simp add: outcome_def split: sum.splits)
  from c o have c1: "(\<forall>f \<in> set newFiles. shown_status st3 (job_id f) = Completed)
              \<or> (\<forall>f \<in> set newFiles. shown_status st3 (job_id f) = Error)"
    by auto
  from c f0 have c2: "\<not> ((\<forall>f \<in> set newFiles. shown_status st3 (job_id f) = Completed)
              \<and> (\<forall>f \<in> set newFiles. shown_status st3 (job_id f) = Error))"
    by auto
  from len pend a1 a2 b b1 b2 c1 c2 show ?thesis
    unfolding Let_def newFiles_def [symmetric] st1_def [symmetric] st2_def [symmetric]
      st3_def [symmetric]
    by blast
qed

theorem batch_lifecycle_witness:
  "two_files \<noteq> []
   \<and> length (make_newFiles draw_ab two_files) = 2
   \<and> map job_status (make_newFiles draw_ab two_files) = [Pending, Pending]
   \<and> requests (append_newFiles (make_newFiles draw_ab two_files) (mount 0)) = [HealthGet]
   \<and> map (shown_status (handleFileUpload two_files draw_ab (mount 0)))
        [''k3j9x0q1a'', ''z8m2c4v7b''] = [Processing, Processing]
   \<and> requests (handleFileUpload two_files draw_ab (mount 0)) = [HealthGet, UploadPost two_files]
   \<and> map (shown_status (handleFileUpload_resume (make_newFiles draw_ab two_files) uploaded_200
             (handleFileUpload two_files draw_ab (mount 0))))
        [''k3j9x0q1a'', ''z8m2c4v7b''] = [Completed, Completed]"
  using batch_lifecycle [of two_files draw_ab "mount 0" uploaded_200
      "handleFileUpload two_files draw_ab (mount 0)"] two_files_nonempty
  by (simp add: Let_def upload_ab newFiles_ab shown_status_def resume_status uploaded_200_def
      append_newFiles_def mount_def loadCollectionInfo_def fetch_def useState_init_def)

text \<open>
  C5: \<open>removeFile\<close> sends nothing. It keeps, in order, the tracked jobs whose id is
  not the given one, each with the status shown before; afterwards no tracked job has that
  id and no status is stored for it. For an id that no tracked job has, the tracked
  sequence and every shown status are as before (at most a status stored for that id, which
  no job shows, is dropped). For an id that a tracked job has, the sequence is shorter by
  exactly one, job ids being pairwise different as the data model has them (they are,
  by \<open>ids_stay_distinct\<close>, for as long as the draws do not collide).
\<close>

theorem removeFile_effect:
  "uploadedFiles (removeFile i st) = filter (\<lambda>f. job_id f \<noteq> i) (uploadedFiles st)
   \<and> tracked_jobs (removeFile i st) = filter (\<lambda>(f, s). job_id f \<noteq> i) (tracked_jobs st)
   \<and> i \<notin> job_id ` set (uploadedFiles (removeFile i st))
   \<and> processingStatus (removeFile i st) i = None
   \<and> requests (removeFile i st) = requests st
   \<and> inflight (removeFile i st) = inflight st
   \<and> (i \<notin> job_id ` set (uploadedFiles st) \<longrightarrow>
        uploadedFiles (removeFile i st) = uploadedFiles st
        \<and> tracked_jobs (removeFile i st) = tracked_jobs st
        \<and> removeFile i st = st\<lparr>processingStatus := (processingStatus st)(i := None)\<rparr>)
   \<and> (i \<notin> job_id ` set (uploadedFiles st) \<and> processingStatus st i = None \<longrightarrow>
        removeFile i st = st)
   \<and> (i \<in> job_id ` set (uploadedFiles st) \<and> distinct (map job_id (uploadedFiles st)) \<longrightarrow>
        Suc (length (uploadedFiles (removeFile i st))) = length (uploadedFiles st))"
proof -
  have tr: "tracked_jobs (removeFile i st) = filter (\<lambda>(f, s). job_id f \<noteq> i) (tracked_jobs st)"
    by (simp add: tracked_jobs_def removeFile_def shown_status_def filter_map comp_def
        cong: map_cong)
  have absent: "filter (\<lambda>f. job_id f \<noteq> i) (uploadedFiles st) = uploadedFiles st"
    if "i \<notin> job_id ` set (uploadedFiles st)"
    using that by (auto simp: filter_id_conv)
  have absent_tr: "filter (\<lambda>(f, s). job_id f \<noteq> i) (tracked_jobs st) = tracked_jobs st"
    if "i \<notin> job_id ` set (uploadedFiles st)"
    using that by (auto simp: filter_id_conv tracked_jobs_def)
  have same: "removeFile i st = st"
    if "i \<notin> job_id ` set (uploadedFiles st)" "processingStatus st i = None"
    using that absent by (simp add: removeFile_def fun_upd_idem)
  show ?thesis
    using tr absent absent_tr same filter_other_length [of job_id "uploadedFiles st" i]
    by (auto simp: removeFile_def)
qed

theorem removeFile_effect_witness:
  "''k3j9x0q1a'' \<in> job_id ` set (uploadedFiles (handleFileUpload two_files draw_ab (mount 0)))
   \<and> distinct (map job_id (uploadedFiles (handleFileUpload two_files draw_ab (mount 0))))
   \<and> length (uploadedFiles (handleFileUpload two_files draw_ab (mount 0))) = 2
   \<and> map job_id (uploadedFiles
        (removeFile ''k3j9x0q1a'' (handleFileUpload two_files draw_ab (mount 0)))) = [''z8m2c4v7b'']
   \<and> ''q'' \<notin> job_id ` set (uploadedFiles (handleFileUpload two_files draw_ab (mount 0)))
   \<and> processingStatus (handleFileUpload two_files draw_ab (mount 0)) ''q'' = None
   \<and> removeFile ''q'' (handleFileUpload two_files draw_ab (mount 0))
       = handleFileUpload two_files draw_ab (mount 0)"
  using removeFile_effect [of "''k3j9x0q1a''" "handleFileUpload two_files draw_ab (mount 0)"]
    removeFile_effect [of "''q''" "handleFileUpload two_files draw_ab (mount 0)"]
  by (simp add: upload_ab newFiles_ab)

text \<open>
  C9: several uploads can be in flight, each a suspended \<open>handleFileUpload\<close> holding
  its own \<open>newFiles\<close>. When the request of one of them settles, with any outcome, the
  tracked sequence is as before, and the stored and the shown status of every id that is
  not an id of that batch are as before. Every other suspended upload is still suspended,
  and when its job ids are none of the settled batch's, the shown status of each of its
  jobs is unchanged.
\<close>

theorem batch_resolution_frame:
  assumes "n < length (inflight st)" and "inflight st ! n = KUpload batch"
  shows "uploadedFiles (fire (Settle n res now) st) = uploadedFiles st
       \<and> (\<forall>i. i \<notin> job_id ` set batch \<longrightarrow>
             processingStatus (fire (Settle n res now) st) i = processingStatus st i
           \<and> shown_status (fire (Settle n res now) st) i = shown_status st i)
       \<and> (\<forall>m other. m < length (inflight st) \<and> m \<noteq> n \<and> inflight st ! m = KUpload other \<longrightarrow>
             KUpload other \<in> set (inflight (fire (Settle n res now) st)))
       \<and> (\<forall>m other. m < length (inflight st) \<and> m \<noteq> n \<and> inflight st ! m = KUpload other
             \<and> job_id ` set other \<inter> job_id ` set batch = {} \<longrightarrow>
             (\<forall>f \<in> set other.
                shown_status (fire (Settle n res now) st) (job_id f) = shown_status st (job_id f)))"
proof -
  define st' where "st' = fire (Settle n res now) st"
  have f: "st' = handleFileUpload_resume batch res (take_inflight n st)"
    using assms by (simp add: st'_def resume_def)
  have u: "uploadedFiles st' = uploadedFiles st"
    by (simp add: f resume_uploadedFiles take_inflight_def)
  have p: "processingStatus st' i = processingStatus st i"
    if "i \<notin> job_id ` set batch" for i
    using that by (simp add: f resume_status take_inflight_def)
  have k: "KUpload other \<in> set (inflight st')"
    if "m < length (inflight st)" "m \<noteq> n" "inflight st ! m = KUpload other" for m other
  proof -
    from that have "KUpload other \<in> set (inflight (take_inflight n st))"
      using nth_survives [of m "inflight st" n] by (simp add: take_inflight_def)
    with resume_inflight show ?thesis
      unfolding f by blast
  qed
  have s: "shown_status st' i = shown_status st i" if "i \<notin> job_id ` set batch" for i
    using p [OF that] by (simp add: shown_status_def)
  have q: "shown_status st' (job_id f) = shown_status st (job_id f)"
    if "f \<in> set other" "job_id ` set other \<inter> job_id ` set batch = {}"
    for f :: job and other :: "job list"
  proof -
    from that have "job_id f \<notin> job_id ` set batch" by blast
    then show ?thesis by (rule s)
  qed
  from u p s k q show ?thesis
    unfolding st'_def [symmetric] by blast
qed

theorem batch_resolution_frame_witness:
  "1 < length (inflight (run two_batches (mount 0)))
   \<and> inflight (run two_batches (mount 0)) ! 1 = KUpload (make_newFiles draw_ab two_files)
   \<and> inflight (run two_batches (mount 0)) ! 2 = KUpload (make_newFiles draw_c other_files)
   \<and> ''p5w1n6t0d'' \<notin> job_id ` set (make_newFiles draw_ab two_files)
   \<and> shown_status (run two_batches (mount 0)) ''p5w1n6t0d'' = Processing
   \<and> shown_status (fire (Settle 1 Rejected 5) (run two_batches (mount 0))) ''p5w1n6t0d''
       = Processing
   \<and> map (shown_status (fire (Settle 1 Rejected 5) (run two_batches (mount 0))))
       [''k3j9x0q1a'', ''z8m2c4v7b''] = [Error, Error]
   \<and> uploadedFiles (fire (Settle 1 Rejected 5) (run two_batches (mount 0)))
       = uploadedFiles (run two_batches (mount 0))"
  using batch_resolution_frame [of 1 "run two_batches (mount 0)"
      "make_newFiles draw_ab two_files" Rejected 5]
  by (simp add: batches_ab_c newFiles_ab newFiles_c shown_status_def resume_def resume_status
      take_inflight_def)

subsection \<open>The query path\<close>

text \<open>
  C3: \<open>handleSendMessage\<close> returns at once, leaving every state cell as it was and sending
  nothing, when the input is empty after trimming or when a query is already awaiting its
  response. Trimming is that of \<open>String.prototype.trim\<close>: the witness has a text of
  a no-break space, a space, an ideographic space, a byte order mark, an em space and a
  tab, and a text typed while a query is in flight.
\<close>

theorem handleSendMessage_guard_noop:
  "trim (inputMessage st) = [] \<or> isThinking st \<Longrightarrow> handleSendMessage now st = st"
  by (auto simp: handleSendMessage_def)

theorem handleSendMessage_guard_noop_witness:
  "trim (inputMessage (setInputMessage blank_text (mount 0))) = []
   \<and> handleSendMessage 7 (setInputMessage blank_text (mount 0))
       = setInputMessage blank_text (mount 0)
   \<and> isThinking (setInputMessage (utf16 ''And now?'') (run refund_session (mount 0)))
   \<and> handleSendMessage 1500 (setInputMessage (utf16 ''And now?'') (run refund_session (mount 0)))
       = setInputMessage (utf16 ''And now?'') (run refund_session (mount 0))"
  using handleSendMessage_guard_noop [of "setInputMessage blank_text (mount 0)" 7]
    handleSendMessage_guard_noop
      [of "setInputMessage (utf16 ''And now?'') (run refund_session (mount 0))" 1500]
  by (simp add: setInputMessage_def trim_blank refund_sent)

text \<open>
  C2, as the code has it. Whatever the outcome of the request, the remainder of
  \<open>handleSendMessage\<close> appends exactly one assistant message and clears
  \<open>isThinking\<close>. The message is the fixed notice, without a \<open>sources\<close> property, when
  \<open>fetch\<close> rejects, when the body is not JSON, and when the body is \<open>null\<close>; the
  status code is not read.
\<close>

theorem query_failure_notice:
  "\<exists>m. messages (handleSendMessage_resume now res st) = messages st @ [m]
      \<and> role m = Assistant
      \<and> \<not> isThinking (handleSendMessage_resume now res st)
      \<and> (res = Rejected \<or> (\<exists>r. res = Resolved r \<and> (body r = None \<or> body r = Some JNull))
          \<longrightarrow> content m = Some (JStr failure_notice) \<and> sources m = None)"
proof -
  let ?m = "case fetch_json res of
              Inl e \<Rightarrow> errorMessage now
            | Inr d \<Rightarrow> (case assistantMessage now d of
                          Inl e \<Rightarrow> errorMessage now | Inr m \<Rightarrow> m)"
  have app: "messages (handleSendMessage_resume now res st) = messages st @ [?m]"
    by (rule resume_messages)
  have rl: "role ?m = Assistant"
    by (auto simp: errorMessage_def assistantMessage_role split: sum.splits)
  have flag: "\<not> isThinking (handleSendMessage_resume now res st)"
    by (simp add: handleSendMessage_resume_def)
  have fail: "?m = errorMessage now"
    if "res = Rejected \<or> (\<exists>r. res = Resolved r \<and> (body r = None \<or> body r = Some JNull))"
    using that by (auto simp: assistantMessage_def)
  have "content (errorMessage now) = Some (JStr failure_notice)"
    and "sources (errorMessage now) = None"
    by (simp_all add: errorMessage_def)
  with app rl flag fail show ?thesis
    by (intro exI [of _ ?m]) auto
qed

theorem query_failure_notice_witness:
  "\<exists>m. messages (handleSendMessage_resume 2000 Rejected (run refund_session (mount 0)))
          = messages (run refund_session (mount 0)) @ [m]
      \<and> role m = Assistant \<and> content m = Some (JStr failure_notice) \<and> sources m = None"
  using query_failure_notice [of 2000 Rejected "run refund_session (mount 0)"]
  by auto

text \<open>
  C2 as stated fails: the backend answers the query with 500 and a JSON body. The
  message appended has no content at all (\<open>data.answer\<close> is \<open>undefined\<close>), not the
  failure notice.
\<close>

theorem query_non_2xx_no_notice:
  "non_2xx \<lparr>status = 500, body = Some (JObj [(''detail'', JStr (utf16 ''Internal Server Error''))])\<rparr>
   \<and> messages (run [TypeInput (utf16 ''hi''), Send 1, Settle 1 error_500 2] (mount 0)) =
       [greeting 0,
        \<lparr>msg_id = ''1'', role = User, content = Some (JStr (utf16 ''hi'')), sources = None,
         timestamp = 1\<rparr>,
        \<lparr>msg_id = ''3'', role = Assistant, content = None, sources = Some (JArr []),
         timestamp = 2\<rparr>]"
  by (simp add: non_2xx_def run_def mount_def useState_init_def loadCollectionInfo_def fetch_def
      setInputMessage_def handleSendMessage_def trim_hi take_inflight_def resume_def
      handleSendMessage_resume_def error_500_def assistantMessage_def
      toString.simps digit_char_def Let_def)

text \<open>
  C8: when the request is answered with a body that has the answer text \<open>answer\<close>, the
  one message appended is an assistant message with that text as content. Its sources are
  the body's citation list when it has one, and the empty list when the body has no
  \<open>sources\<close> member. The witness is the refund scenario: the question is typed and
  sent, the backend answers 30 days with one citation.
\<close>

theorem query_success_message:
  assumes "body r = Some d" and "get_prop d ''answer'' = Inr (Some (JStr answer))"
    and "get_prop d ''sources'' = Inr cs"
  shows "\<exists>m. messages (handleSendMessage_resume now (Resolved r) st) = messages st @ [m]
           \<and> role m = Assistant
           \<and> content m = Some (JStr answer)
           \<and> (\<forall>xs. cs = Some (JArr xs) \<longrightarrow> sources m = Some (JArr xs))
           \<and> (cs = None \<longrightarrow> sources m = Some (JArr []))
           \<and> \<not> isThinking (handleSendMessage_resume now (Resolved r) st)"
proof -
  let ?m = "\<lparr>msg_id = toString (now + 1), role = Assistant, content = Some (JStr answer),
             sources = (if truthy cs then cs else Some (JArr [])), timestamp = now\<rparr>"
  from assms have "assistantMessage now d = Inr ?m"
    by (simp add: assistantMessage_def)
  with assms(1) have "messages (handleSendMessage_resume now (Resolved r) st) = messages st @ [?m]"
    by (simp add: resume_messages)
  moreover have "\<not> isThinking (handleSendMessage_resume now (Resolved r) st)"
    by (simp add: handleSendMessage_resume_def)
  ultimately show ?thesis
    by (intro exI [of _ ?m]) auto
qed

theorem query_success_message_witness:
  "messages (handleSendMessage_resume 2000 refund_200 (run refund_session (mount 0))) =
     [greeting 0,
      \<lparr>msg_id = ''1000'', role = User, content = Some (JStr (utf16 ''What is the refund policy?'')),
       sources = None, timestamp = 1000\<rparr>,
      \<lparr>msg_id = ''2001'', role = Assistant, content = Some (JStr (utf16 ''30 days'')),
       sources = Some (JArr [JObj [(''filename'', JStr (utf16 ''policy.pdf'')), (''page'', JNum 3),
                                   (''relevance'', JNum (92 / 100))]]),
       timestamp = 2000\<rparr>]
   \<and> (\<exists>m. messages (handleSendMessage_resume 2000 refund_200 (run refund_session (mount 0)))
            = messages (run refund_session (mount 0)) @ [m]
          \<and> content m = Some (JStr (utf16 ''30 days''))
          \<and> sources m = Some (JArr [JObj [(''filename'', JStr (utf16 ''policy.pdf'')), (''page'', JNum 3),
                                           (''relevance'', JNum (92 / 100))]]))"
  using query_success_message
    [of "\<lparr>status = 200,
       body = Some (JObj [(''answer'', JStr (utf16 ''30 days'')),
                          (''sources'', JArr [JObj [(''filename'', JStr (utf16 ''policy.pdf'')),
                                                    (''page'', JNum 3),
                                                    (''relevance'', JNum (92 / 100))]])])\<rparr>"
       "JObj [(''answer'', JStr (utf16 ''30 days'')),
                          (''sources'', JArr [JObj [(''filename'', JStr (utf16 ''policy.pdf'')),
                                                    (''page'', JNum 3),
                                                    (''relevance'', JNum (92 / 100))]])]"
       "utf16 ''30 days''"
       "Some (JArr [JObj [(''filename'', JStr (utf16 ''policy.pdf'')), (''page'', JNum 3),
                                   (''relevance'', JNum (92 / 100))]])"
       2000 "run refund_session (mount 0)"]
  by (simp add: refund_200_def refund_sent resume_messages assistantMessage_def
      toString.simps digit_char_def)

text \<open>
  C7: the transcript after the first render is the greeting alone, an assistant message
  with a fixed text and no sources. Every event, in every state, leaves the transcript as
  it was or appends one message to it. After any sequence of events the transcript is the
  greeting followed by user and assistant messages in turn, the last user message being
  without its assistant message only while \<open>isThinking\<close> is set, and at most one
  query is in flight: the assistant message appended when it settles follows the user
  message that asked.
\<close>

theorem transcript_append_only:
  "messages (mount t0) = [greeting t0]
   \<and> role (greeting t0) = Assistant
   \<and> content (greeting t0) = Some (JStr
        (utf16 ''Hello! I can help you find information from the document database. Ask me anything!''))
   \<and> sources (greeting t0) = None
   \<and> (\<exists>new. messages (fire e st) = messages st @ new \<and> length new \<le> 1)
   \<and> session_ok t0 (run evs (mount t0))"
  using fire_appends [of e st] run_ok [of t0 evs]
  by (simp add: mount_def loadCollectionInfo_def fetch_def useState_init_def greeting_def)

theorem transcript_append_only_witness:
  "messages (run (refund_session @ [Settle 1 refund_200 2000]) (mount 0)) =
     [greeting 0,
      \<lparr>msg_id = ''1000'', role = User, content = Some (JStr (utf16 ''What is the refund policy?'')),
       sources = None, timestamp = 1000\<rparr>,
      \<lparr>msg_id = ''2001'', role = Assistant, content = Some (JStr (utf16 ''30 days'')),
       sources = Some (JArr [JObj [(''filename'', JStr (utf16 ''policy.pdf'')), (''page'', JNum 3),
                                   (''relevance'', JNum (92 / 100))]]),
       timestamp = 2000\<rparr>]
   \<and> session_ok 0 (run (refund_session @ [Settle 1 refund_200 2000]) (mount 0))
   \<and> \<not> isThinking (run (refund_session @ [Settle 1 refund_200 2000]) (mount 0))"
  using transcript_append_only [of 0 "Send 1" "mount 0" "refund_session @ [Settle 1 refund_200 2000]"]
  by (simp add: refund_sent resume_def take_inflight_def resume_messages refund_200_def
      assistantMessage_def toString.simps digit_char_def query_resume_frame)

subsection \<open>The collection summary\<close>

text \<open>
  C6, as the code has it. The remainder of \<open>loadCollectionInfo\<close> never shows an alert
  and never writes to the transcript. It leaves the cached summary as it was when
  \<open>fetch\<close> rejects, and when a response of any status has a body that is not JSON, is
  \<open>null\<close>, or has no \<open>collection\<close> member or a \<open>null\<close> one. The status code is
  not read.
\<close>

theorem health_failure_keeps_cache:
  "alerts (loadCollectionInfo_resume res st) = alerts st
   \<and> messages (loadCollectionInfo_resume res st) = messages st
   \<and> (res = Rejected
        \<or> (\<exists>r. res = Resolved r \<and>
              (body r = None \<or> body r = Some JNull
               \<or> (\<exists>d. body r = Some d \<and> get_prop d ''collection'' = Inr None)
               \<or> (\<exists>d. body r = Some d \<and> get_prop d ''collection'' = Inr (Some JNull))))
      \<longrightarrow> collectionInfo (loadCollectionInfo_resume res st) = collectionInfo st)"
  by (auto simp: loadCollectionInfo_resume_def console_error_def read_document_count_def
      split: sum.splits)

theorem health_failure_keeps_cache_witness:
  "collectionInfo (loadCollectionInfo_resume Rejected (mount 0)) = collectionInfo (mount 0)
   \<and> alerts (loadCollectionInfo_resume Rejected (mount 0)) = []
   \<and> get_prop (JObj [(''detail'', JStr (utf16 ''Internal Server Error''))]) ''collection'' = Inr None
   \<and> collectionInfo (loadCollectionInfo_resume error_500 (mount 0)) = collectionInfo (mount 0)"
  using health_failure_keeps_cache [of Rejected "mount 0"]
    health_failure_keeps_cache [of error_500 "mount 0"]
  by (simp add: error_500_def mount_def loadCollectionInfo_def fetch_def useState_init_def)

text \<open>
  C6 as stated fails: the health endpoint answers 503 with a body that reports a
  collection of 5 documents, and the cached summary goes from 0 to 5.
\<close>

theorem health_non_2xx_overwrites:
  "non_2xx \<lparr>status = 503,
     body = Some (JObj [(''status'', JStr (utf16 ''degraded'')),
                        (''collection'', JObj [(''document_count'', JNum 5)])])\<rparr>
   \<and> collectionInfo (mount 0) = \<lparr>document_count = Some (JNum 0), total_chunks = Some (JNum 0)\<rparr>
   \<and> collectionInfo (run [Settle 0 degraded_503 1] (mount 0)) =
        \<lparr>document_count = Some (JNum 5), total_chunks = Some (JNum 5)\<rparr>"
  by (simp add: non_2xx_def run_def mount_def useState_init_def loadCollectionInfo_def fetch_def
      take_inflight_def resume_def loadCollectionInfo_resume_def degraded_503_def
      read_document_count_def)

text \<open>
  C10, as the code has it. The cached summary starts with both counts 0, after any
  sequence of events its \<open>total_chunks\<close> is its \<open>document_count\<close>, and a health
  answer from which \<open>data.collection.document_count\<close> can be read puts that value into
  both fields. What is shown of it differs between the two copies of the component.
  App.js never shows the cached \<open>total_chunks\<close>: nothing shown changes when that field
  alone is changed. The \<open>Total Chunks\<close> card of its dashboard shows
  \<open>analytics.totalChunks\<close>, which is 846 after any sequence of events, beside the
  cached \<open>document_count\<close>. The header of part_000 shows both cached counts, and there
  they are equal after any sequence of events.
\<close>

theorem chunk_count_mirrors_document_count:
  "collectionInfo (mount t0) = \<lparr>document_count = Some (JNum 0), total_chunks = Some (JNum 0)\<rparr>
   \<and> total_chunks (collectionInfo (run evs (mount t0))) =
       document_count (collectionInfo (run evs (mount t0)))
   \<and> (body r = Some d \<and> read_document_count d = Inr n \<longrightarrow>
        collectionInfo (loadCollectionInfo_resume (Resolved r) st) =
          \<lparr>document_count = n, total_chunks = n\<rparr>)
   \<and> render (st\<lparr>collectionInfo := (collectionInfo st)\<lparr>total_chunks := x\<rparr>\<rparr>) = render st
   \<and> card_total_chunks (dashboard_cards (run evs (mount t0))) = 846
   \<and> card_documents (dashboard_cards (run evs (mount t0))) =
       document_count (collectionInfo (run evs (mount t0)))
   \<and> fst (header_part_000 (run evs (mount t0))) = snd (header_part_000 (run evs (mount t0)))"
proof -
  have inv: "total_chunks (collectionInfo (run evs (mount t0))) =
      document_count (collectionInfo (run evs (mount t0)))"
    by (rule run_mirror)
  have init: "collectionInfo (mount t0) =
      \<lparr>document_count = Some (JNum 0), total_chunks = Some (JNum 0)\<rparr>"
    by (simp add: mount_def loadCollectionInfo_def fetch_def useState_init_def)
  have wr: "collectionInfo (loadCollectionInfo_resume (Resolved r) st) =
      \<lparr>document_count = n, total_chunks = n\<rparr>"
    if "body r = Some d" "read_document_count d = Inr n"
    using that by (simp add: loadCollectionInfo_resume_def)
  have card: "card_total_chunks (dashboard_cards (run evs (mount t0))) = 846"
    by (simp add: dashboard_cards_def run_analytics mock_analytics_def)
  have docs: "card_documents (dashboard_cards (run evs (mount t0))) =
      document_count (collectionInfo (run evs (mount t0)))"
    by (simp add: dashboard_cards_def)
  have hd: "fst (header_part_000 (run evs (mount t0))) = snd (header_part_000 (run evs (mount t0)))"
    using inv by (simp add: header_part_000_def)
  from init inv wr card docs hd render_ignores_total_chunks [of x st] show ?thesis
    by blast
qed

theorem chunk_count_mirrors_document_count_witness:
  "read_document_count (JObj [(''collection'', JObj [(''document_count'', JNum 7)])])
     = Inr (Some (JNum 7))
   \<and> collectionInfo (loadCollectionInfo_resume health_7 (mount 0)) =
       \<lparr>document_count = Some (JNum 7), total_chunks = Some (JNum 7)\<rparr>
   \<and> collectionInfo (run dashboard_session (mount 0)) =
       \<lparr>document_count = Some (JNum 7), total_chunks = Some (JNum 7)\<rparr>
   \<and> card_total_chunks (dashboard_cards (run dashboard_session (mount 0))) = 846
   \<and> card_documents (dashboard_cards (run dashboard_session (mount 0))) = Some (JNum 7)
   \<and> header_part_000 (run dashboard_session (mount 0)) = (Some (JNum 7), Some (JNum 7))"
  using chunk_count_mirrors_document_count
    [of 0 dashboard_session
      "\<lparr>status = 200,
         body = Some (JObj [(''collection'', JObj [(''document_count'', JNum 7)])])\<rparr>"
      "JObj [(''collection'', JObj [(''document_count'', JNum 7)])]" "Some (JNum 7)" "mount 0"
      "Some (JNum 7)"]
  by (simp add: health_7_def read_document_count_def dashboard_ab header_part_000_def)

text \<open>
  C10 as stated fails on App.js: the health endpoint reports 7 documents and the
  dashboard is opened. The cache holds 7 and 7, and the dashboard shows 846 chunks beside
  7 documents.
\<close>

theorem dashboard_shows_mock_chunk_count:
  "collectionInfo (run dashboard_session (mount 0)) =
     \<lparr>document_count = Some (JNum 7), total_chunks = Some (JNum 7)\<rparr>
   \<and> render (run dashboard_session (mount 0)) =
       DashboardView
         \<lparr>card_total_chunks = 846, card_avg_chunk_size = 512, card_total_tokens_K = 438,
          card_documents = Some (JNum 7)\<rparr>
         (documentTypes mock_analytics) (chunkDistribution mock_analytics)
         (recentActivity mock_analytics)"
  by (simp add: dashboard_ab render_def dashboard_cards_def mount_analytics mock_analytics_def)

end
